theory Spec2Isabelle
  imports Complex_Main
begin

section \<open>JavaScript numbers\<close>

text \<open>
  The slider computes with JavaScript numbers: IEEE binary64 values. A number is a finite
  real or one of the three special values, so that a division by zero is a branch of the
  model and not the value HOL gives to \<open>x / 0\<close>. The operations come in two forms.
  The exact ones (\<open>jadd\<close>, \<open>jmul\<close>, \<open>jdiv\<close>) return the real result and fix which
  case and which formula the code evaluates; the machine ones (\<open>fadd\<close>, \<open>fmul\<close>,
  \<open>fdiv\<close>, further down) round each result to binary64 and overflow to an infinity,
  as the code does. In both, the sign of zero is not modelled: a zero is the positive
  zero, which is what \<open>a - a\<close> gives in JavaScript.
\<close>

datatype jsnum = Fin real | PInf | NInf | NaN

fun jneg :: "jsnum \<Rightarrow> jsnum" where
  "jneg (Fin a) = Fin (- a)"
| "jneg PInf = NInf"
| "jneg NInf = PInf"
| "jneg NaN = NaN"

fun jadd :: "jsnum \<Rightarrow> jsnum \<Rightarrow> jsnum" where
  "jadd NaN _ = NaN"
| "jadd _ NaN = NaN"
| "jadd (Fin a) (Fin b) = Fin (a + b)"
| "jadd (Fin _) PInf = PInf"
| "jadd (Fin _) NInf = NInf"
| "jadd PInf (Fin _) = PInf"
| "jadd NInf (Fin _) = NInf"
| "jadd PInf PInf = PInf"
| "jadd NInf NInf = NInf"
| "jadd PInf NInf = NaN"
| "jadd NInf PInf = NaN"

definition jsub :: "jsnum \<Rightarrow> jsnum \<Rightarrow> jsnum" where
  "jsub a b = jadd a (jneg b)"

text \<open>The sign of an infinite product or quotient: positive, or negative.\<close>

definition signed_inf :: "bool \<Rightarrow> jsnum" where
  "signed_inf pos = (if pos then PInf else NInf)"

fun jmul :: "jsnum \<Rightarrow> jsnum \<Rightarrow> jsnum" where
  "jmul NaN _ = NaN"
| "jmul _ NaN = NaN"
| "jmul (Fin a) (Fin b) = Fin (a * b)"
| "jmul (Fin a) PInf = (if a = 0 then NaN else signed_inf (0 < a))"
| "jmul (Fin a) NInf = (if a = 0 then NaN else signed_inf (a < 0))"
| "jmul PInf (Fin b) = (if b = 0 then NaN else signed_inf (0 < b))"
| "jmul NInf (Fin b) = (if b = 0 then NaN else signed_inf (b < 0))"
| "jmul PInf PInf = PInf"
| "jmul NInf NInf = PInf"
| "jmul PInf NInf = NInf"
| "jmul NInf PInf = NInf"

fun jdiv :: "jsnum \<Rightarrow> jsnum \<Rightarrow> jsnum" where
  "jdiv NaN _ = NaN"
| "jdiv _ NaN = NaN"
| "jdiv (Fin a) (Fin b) =
     (if b \<noteq> 0 then Fin (a / b)
      else if a = 0 then NaN
      else signed_inf (0 < a))"
| "jdiv (Fin _) PInf = Fin 0"
| "jdiv (Fin _) NInf = Fin 0"
| "jdiv PInf (Fin b) = signed_inf (0 \<le> b)"
| "jdiv NInf (Fin b) = signed_inf (b < 0)"
| "jdiv PInf PInf = NaN"
| "jdiv PInf NInf = NaN"
| "jdiv NInf PInf = NaN"
| "jdiv NInf NInf = NaN"

text \<open>The comparison \<open>a <= b\<close> of JavaScript: false as soon as one side is NaN.\<close>

fun jle :: "jsnum \<Rightarrow> jsnum \<Rightarrow> bool" where
  "jle NaN _ = False"
| "jle _ NaN = False"
| "jle (Fin a) (Fin b) = (a \<le> b)"
| "jle NInf _ = True"
| "jle _ PInf = True"
| "jle PInf _ = False"
| "jle _ NInf = False"

definition jge :: "jsnum \<Rightarrow> jsnum \<Rightarrow> bool" where
  "jge a b = jle b a"

text \<open>\<open>Math.max\<close> and \<open>Math.min\<close> of two arguments: NaN if either is NaN.\<close>

definition Math_max :: "jsnum \<Rightarrow> jsnum \<Rightarrow> jsnum" where
  "Math_max a b = (if a = NaN \<or> b = NaN then NaN else if jle a b then b else a)"

definition Math_min :: "jsnum \<Rightarrow> jsnum \<Rightarrow> jsnum" where
  "Math_min a b = (if a = NaN \<or> b = NaN then NaN else if jle a b then a else b)"

text \<open>\<open>Math.round\<close>: the nearest integer, a half going up (towards plus infinity).\<close>

fun Math_round :: "jsnum \<Rightarrow> jsnum" where
  "Math_round (Fin a) = Fin (of_int \<lfloor>a + 1 / 2\<rfloor>)"
| "Math_round PInf = PInf"
| "Math_round NInf = NInf"
| "Math_round NaN = NaN"

text \<open>The remainder \<open>x % y\<close> of two finite numbers, \<open>y\<close> not zero: the quotient is truncated.\<close>

definition js_rem :: "real \<Rightarrow> real \<Rightarrow> real" where
  "js_rem x y = x - y * of_int (if 0 \<le> x / y then \<lfloor>x / y\<rfloor> else \<lceil>x / y\<rceil>)"

section \<open>Machine arithmetic\<close>

text \<open>
  Rounding to the nearest integer, a tie going to the even one; and rounding of a real to
  binary64: 53 significant bits, the exponent of the leading bit between -1022 and 1023
  (below, the spacing stays that of exponent -1022, the subnormal numbers), and an
  infinity once the rounded magnitude reaches \<open>2 ^ 1024\<close>.
\<close>

definition rne :: "real \<Rightarrow> int" where
  "rne q =
     (let f = \<lfloor>q\<rfloor>; d = q - of_int f
      in if d < 1 / 2 then f
         else if 1 / 2 < d then f + 1
         else if even f then f else f + 1)"

definition fl64 :: "real \<Rightarrow> jsnum" where
  "fl64 x =
     (if x = 0 then Fin 0
      else
        (let e = max (- 1022) \<lfloor>log 2 \<bar>x\<bar>\<rfloor>;
             y = of_int (rne (x / 2 powi (e - 52))) * 2 powi (e - 52)
         in if 2 ^ 1024 \<le> \<bar>y\<bar> then signed_inf (0 < x) else Fin y))"

text \<open>
  The four operations of the machine: each rounds its exact result; the special values
  behave as in the exact operations.
\<close>

fun fadd :: "jsnum \<Rightarrow> jsnum \<Rightarrow> jsnum" where
  "fadd NaN _ = NaN"
| "fadd _ NaN = NaN"
| "fadd (Fin a) (Fin b) = fl64 (a + b)"
| "fadd (Fin _) PInf = PInf"
| "fadd (Fin _) NInf = NInf"
| "fadd PInf (Fin _) = PInf"
| "fadd NInf (Fin _) = NInf"
| "fadd PInf PInf = PInf"
| "fadd NInf NInf = NInf"
| "fadd PInf NInf = NaN"
| "fadd NInf PInf = NaN"

definition fsub :: "jsnum \<Rightarrow> jsnum \<Rightarrow> jsnum" where
  "fsub a b = fadd a (jneg b)"

fun fmul :: "jsnum \<Rightarrow> jsnum \<Rightarrow> jsnum" where
  "fmul NaN _ = NaN"
| "fmul _ NaN = NaN"
| "fmul (Fin a) (Fin b) = fl64 (a * b)"
| "fmul (Fin a) PInf = (if a = 0 then NaN else signed_inf (0 < a))"
| "fmul (Fin a) NInf = (if a = 0 then NaN else signed_inf (a < 0))"
| "fmul PInf (Fin b) = (if b = 0 then NaN else signed_inf (0 < b))"
| "fmul NInf (Fin b) = (if b = 0 then NaN else signed_inf (b < 0))"
| "fmul PInf PInf = PInf"
| "fmul NInf NInf = PInf"
| "fmul PInf NInf = NInf"
| "fmul NInf PInf = NInf"

fun fdiv :: "jsnum \<Rightarrow> jsnum \<Rightarrow> jsnum" where
  "fdiv NaN _ = NaN"
| "fdiv _ NaN = NaN"
| "fdiv (Fin a) (Fin b) =
     (if b \<noteq> 0 then fl64 (a / b)
      else if a = 0 then NaN
      else signed_inf (0 < a))"
| "fdiv (Fin _) PInf = Fin 0"
| "fdiv (Fin _) NInf = Fin 0"
| "fdiv PInf (Fin b) = signed_inf (0 \<le> b)"
| "fdiv NInf (Fin b) = signed_inf (b < 0)"
| "fdiv PInf PInf = NaN"
| "fdiv PInf NInf = NaN"
| "fdiv NInf PInf = NaN"
| "fdiv NInf NInf = NaN"

section \<open>Data of the component\<close>

text \<open>
  Names are those of \<open>src/index.tsx\<close>; the leading underscore of a private member is
  dropped, and the fields of the component's \<open>state\<close> carry the prefix \<open>state_\<close>.
  Configuration numbers, layout dimensions and touch coordinates are finite, hence reals;
  what the component computes from them is a \<open>jsnum\<close>.
\<close>

record Size =
  width :: real
  height :: real

record Rect =
  rx :: jsnum
  ry :: jsnum
  rwidth :: jsnum
  rheight :: jsnum

datatype SizeEnum = containerSize | trackSize | thumbSize

datatype EventEnum = onSlidingStart | onValueChange | onSlidingComplete

text \<open>
  The props the engine reads. A callback prop is the flag saying that the caller gave one;
  what a callback does is outside the component, which only calls it.
\<close>

record SliderProps =
  propValue :: real
  disabled :: bool
  minimumValue :: real
  maximumValue :: real
  step :: real
  thumbTouchSize :: Size
  has_onValueChange :: bool
  has_onSlidingStart :: bool
  has_onSlidingComplete :: bool

text \<open>
  The instance: the three private sizes (undefined until measured), the component state,
  the animated value, the drag anchor and the value last delivered to the listener.
  \<open>setStateCalls\<close> counts the calls of \<open>setState\<close> and \<open>fired\<close> lists the callbacks
  called so far, oldest first, each with its argument.
\<close>

record Slider =
  priv_containerSize :: "Size option"
  priv_trackSize :: "Size option"
  priv_thumbSize :: "Size option"
  state_containerSize :: Size
  state_trackSize :: Size
  state_thumbSize :: Size
  state_allMeasured :: bool
  state_value :: jsnum
  previousLeft :: jsnum
  currentValue :: jsnum
  setStateCalls :: nat
  fired :: "(EventEnum \<times> jsnum) list"

definition containsPoint :: "Rect \<Rightarrow> real \<Rightarrow> real \<Rightarrow> bool" where
  "containsPoint r x y =
     (jge (Fin x) (rx r) \<and> jge (Fin y) (ry r) \<and>
      jle (Fin x) (jadd (rx r) (rwidth r)) \<and>
      jle (Fin y) (jadd (ry r) (rheight r)))"

text \<open>The constructor; \<open>props.value || 0\<close> of a finite number is that number.\<close>

definition constructor :: "SliderProps \<Rightarrow> Slider" where
  "constructor props =
     \<lparr> priv_containerSize = None, priv_trackSize = None, priv_thumbSize = None,
       state_containerSize = \<lparr>width = 0, height = 0\<rparr>,
       state_trackSize = \<lparr>width = 0, height = 0\<rparr>,
       state_thumbSize = \<lparr>width = 0, height = 0\<rparr>,
       state_allMeasured = False,
       state_value = Fin (propValue props),
       previousLeft = Fin 0,
       currentValue = Fin 0,
       setStateCalls = 0,
       fired = [] \<rparr>"

section \<open>Geometry store\<close>

fun getStore :: "Slider \<Rightarrow> SizeEnum \<Rightarrow> Size option" where
  "getStore s containerSize = priv_containerSize s"
| "getStore s trackSize = priv_trackSize s"
| "getStore s thumbSize = priv_thumbSize s"

fun setStore :: "Slider \<Rightarrow> SizeEnum \<Rightarrow> Size \<Rightarrow> Slider" where
  "setStore s containerSize z = s\<lparr>priv_containerSize := Some z\<rparr>"
| "setStore s trackSize z = s\<lparr>priv_trackSize := Some z\<rparr>"
| "setStore s thumbSize z = s\<lparr>priv_thumbSize := Some z\<rparr>"

text \<open>
  The second half of \<open>_handleMeasure\<close>: once the three private sizes are defined,
  \<open>setState\<close> publishes them and sets \<open>allMeasured\<close>. An object is truthy whatever
  its dimensions.
\<close>

definition publishSizes :: "Slider \<Rightarrow> Slider" where
  "publishSizes s =
     (case (priv_containerSize s, priv_trackSize s, priv_thumbSize s) of
        (Some c, Some t, Some b) \<Rightarrow>
          s\<lparr>state_containerSize := c, state_trackSize := t, state_thumbSize := b,
            state_allMeasured := True, setStateCalls := Suc (setStateCalls s)\<rparr>
      | _ \<Rightarrow> s)"

definition handleMeasure :: "Slider \<Rightarrow> SizeEnum \<Rightarrow> real \<Rightarrow> real \<Rightarrow> Slider" where
  "handleMeasure s storeName w h =
     (if (case getStore s storeName of
            Some currentSize \<Rightarrow> w = width currentSize \<and> h = height currentSize
          | None \<Rightarrow> False)
      then s
      else publishSizes (setStore s storeName \<lparr>width = w, height = h\<rparr>))"

definition measureContainer :: "Slider \<Rightarrow> real \<Rightarrow> real \<Rightarrow> Slider" where
  "measureContainer s w h = handleMeasure s containerSize w h"

definition measureTrack :: "Slider \<Rightarrow> real \<Rightarrow> real \<Rightarrow> Slider" where
  "measureTrack s w h = handleMeasure s trackSize w h"

definition measureThumb :: "Slider \<Rightarrow> real \<Rightarrow> real \<Rightarrow> Slider" where
  "measureThumb s w h = handleMeasure s thumbSize w h"

section \<open>Value mapper\<close>

definition getRatio :: "SliderProps \<Rightarrow> jsnum \<Rightarrow> jsnum" where
  "getRatio props v =
     jdiv (jsub v (Fin (minimumValue props)))
          (Fin (maximumValue props - minimumValue props))"

text \<open>\<open>isRTL\<close> is the global \<open>I18nManager.isRTL\<close>, a parameter here.\<close>

definition getThumbLeft :: "bool \<Rightarrow> SliderProps \<Rightarrow> Slider \<Rightarrow> jsnum \<Rightarrow> jsnum" where
  "getThumbLeft isRTL props s v =
     (let nonRtlRatio = getRatio props v;
          ratio = (if isRTL then jsub (Fin 1) nonRtlRatio else nonRtlRatio)
      in jmul ratio (Fin (width (state_containerSize s) - width (state_thumbSize s))))"

text \<open>The local \<open>ratio\<close> of \<open>_getValue\<close>, for the cumulative displacement \<open>dx\<close>.\<close>

definition getValue_ratio :: "bool \<Rightarrow> Slider \<Rightarrow> real \<Rightarrow> jsnum" where
  "getValue_ratio isRTL s dx =
     (let len = Fin (width (state_containerSize s) - width (state_thumbSize s));
          thumbLeft = jadd (previousLeft s) (Fin dx);
          nonRtlRatio = jdiv thumbLeft len
      in if isRTL then jsub (Fin 1) nonRtlRatio else nonRtlRatio)"

definition getValue :: "bool \<Rightarrow> SliderProps \<Rightarrow> Slider \<Rightarrow> real \<Rightarrow> jsnum" where
  "getValue isRTL props s dx =
     (let ratio = getValue_ratio isRTL s dx;
          mn = Fin (minimumValue props);
          mx = Fin (maximumValue props);
          st = Fin (step props)
      in if step props \<noteq> 0 then
           Math_max mn
             (Math_min mx
                (jadd mn
                   (jmul (Math_round (jdiv (jmul ratio (Fin (maximumValue props - minimumValue props))) st))
                         st)))
         else
           Math_max mn
             (Math_min mx
                (jadd (jmul ratio (Fin (maximumValue props - minimumValue props))) mn)))"

section \<open>Value mapper in machine arithmetic\<close>


definition trackLength64 :: "Slider \<Rightarrow> jsnum" where
  "trackLength64 s =
     fsub (Fin (width (state_containerSize s))) (Fin (width (state_thumbSize s)))"


definition getValue_ratio64 :: "bool \<Rightarrow> Slider \<Rightarrow> real \<Rightarrow> jsnum" where
  "getValue_ratio64 isRTL s dx =
     (let len = trackLength64 s;
          thumbLeft = fadd (previousLeft s) (Fin dx);
          nonRtlRatio = fdiv thumbLeft len
      in if isRTL then fsub (Fin 1) nonRtlRatio else nonRtlRatio)"

definition getValue64 :: "bool \<Rightarrow> SliderProps \<Rightarrow> Slider \<Rightarrow> real \<Rightarrow> jsnum" where
  "getValue64 isRTL props s dx =
     (let ratio = getValue_ratio64 isRTL s dx;
          mn = Fin (minimumValue props);
          mx = Fin (maximumValue props);
          st = Fin (step props)
      in if step props \<noteq> 0 then
           Math_max mn
             (Math_min mx
                (fadd mn (fmul (Math_round (fdiv (fmul ratio (fsub mx mn)) st)) st)))
         else
           Math_max mn (Math_min mx (fadd (fmul ratio (fsub mx mn)) mn)))"

section \<open>Value holder\<close>

definition getCurrentValue :: "Slider \<Rightarrow> jsnum" where
  "getCurrentValue s = currentValue s"

text \<open>The listener registered by the constructor on the animated value.\<close>

definition listener :: "Slider \<Rightarrow> jsnum \<Rightarrow> Slider" where
  "listener s v = s\<lparr>currentValue := v\<rparr>"

text \<open>
  Modelled from the spec: \<open>Animated.Value.setValue\<close> belongs to the host library;
  by section 4.4 an immediate write stores the value and notifies the listeners
  synchronously.
\<close>

definition setCurrentValue :: "Slider \<Rightarrow> jsnum \<Rightarrow> Slider" where
  "setCurrentValue s v = listener (s\<lparr>state_value := v\<rparr>) v"

fun hasCallback :: "SliderProps \<Rightarrow> EventEnum \<Rightarrow> bool" where
  "hasCallback props onSlidingStart = has_onSlidingStart props"
| "hasCallback props onValueChange = has_onValueChange props"
| "hasCallback props onSlidingComplete = has_onSlidingComplete props"

definition fireChangeEvent :: "SliderProps \<Rightarrow> Slider \<Rightarrow> EventEnum \<Rightarrow> Slider" where
  "fireChangeEvent props s event =
     (if hasCallback props event
      then s\<lparr>fired := fired s @ [(event, getCurrentValue s)]\<rparr>
      else s)"

section \<open>Touch target\<close>

definition getTouchOverflowSize :: "SliderProps \<Rightarrow> Slider \<Rightarrow> Size" where
  "getTouchOverflowSize props s =
     (if state_allMeasured s then
        \<lparr>width = max 0 (width (thumbTouchSize props) - width (state_thumbSize s)),
         height = max 0 (height (thumbTouchSize props) - height (state_containerSize s))\<rparr>
      else \<lparr>width = 0, height = 0\<rparr>)"

definition getThumbTouchRect :: "bool \<Rightarrow> SliderProps \<Rightarrow> Slider \<Rightarrow> Rect" where
  "getThumbTouchRect isRTL props s =
     (let touchOverflowSize = getTouchOverflowSize props s in
      \<lparr>rx = jadd (jadd (Fin (width touchOverflowSize / 2))
                      (getThumbLeft isRTL props s (getCurrentValue s)))
                (Fin ((width (state_thumbSize s) - width (thumbTouchSize props)) / 2)),
       ry = Fin (height touchOverflowSize / 2 +
                 (height (state_containerSize s) - height (thumbTouchSize props)) / 2),
       rwidth = Fin (width (thumbTouchSize props)),
       rheight = Fin (height (thumbTouchSize props))\<rparr>)"

definition thumbHitTest :: "bool \<Rightarrow> SliderProps \<Rightarrow> Slider \<Rightarrow> real \<Rightarrow> real \<Rightarrow> bool" where
  "thumbHitTest isRTL props s locationX locationY =
     containsPoint (getThumbTouchRect isRTL props s) locationX locationY"

section \<open>Gesture handlers\<close>

definition handleStartShouldSetPanResponder ::
    "bool \<Rightarrow> SliderProps \<Rightarrow> Slider \<Rightarrow> real \<Rightarrow> real \<Rightarrow> bool" where
  "handleStartShouldSetPanResponder isRTL props s locationX locationY =
     thumbHitTest isRTL props s locationX locationY"

definition handleMoveShouldSetPanResponder :: bool where
  "handleMoveShouldSetPanResponder = False"

definition handlePanResponderGrant :: "bool \<Rightarrow> SliderProps \<Rightarrow> Slider \<Rightarrow> Slider" where
  "handlePanResponderGrant isRTL props s =
     fireChangeEvent props
       (s\<lparr>previousLeft := getThumbLeft isRTL props s (getCurrentValue s)\<rparr>)
       onSlidingStart"

definition handlePanResponderMove :: "bool \<Rightarrow> SliderProps \<Rightarrow> Slider \<Rightarrow> real \<Rightarrow> Slider" where
  "handlePanResponderMove isRTL props s dx =
     (if disabled props then s
      else fireChangeEvent props
             (setCurrentValue s (getValue isRTL props s dx)) onValueChange)"

definition handlePanResponderRequestEnd :: bool where
  "handlePanResponderRequestEnd = False"

definition handlePanResponderEnd :: "bool \<Rightarrow> SliderProps \<Rightarrow> Slider \<Rightarrow> real \<Rightarrow> Slider" where
  "handlePanResponderEnd isRTL props s dx =
     (if disabled props then s
      else fireChangeEvent props
             (setCurrentValue s (getValue isRTL props s dx)) onSlidingComplete)"

section \<open>Gesture controller\<close>

text \<open>
  Modelled from the spec: the responder system that delivers the pointer events and calls
  the handlers is the host's (\<open>PanResponder\<close>), not this repository's. By sections 4.3
  and 6 the controller is \<open>Idle\<close> or \<open>Dragging\<close>; while idle, a press asks the
  start handler and a move asks the move handler whether the gesture is granted, and a
  grant calls the grant handler; while dragging, a move calls the move handler, a release
  and a termination call the end handler, and a termination request asks the request
  handler. Moves, releases and terminations carry the cumulative displacement \<open>dx\<close>.
\<close>

datatype ControllerState = Idle | Dragging

datatype PointerEvent =
    TouchStart real real
  | TouchMove real
  | Release real
  | Terminate real
  | TerminationRequest real

fun dispatch ::
    "bool \<Rightarrow> SliderProps \<Rightarrow> ControllerState \<times> Slider \<Rightarrow> PointerEvent \<Rightarrow> ControllerState \<times> Slider"
where
  "dispatch isRTL props (Idle, s) (TouchStart x y) =
     (if handleStartShouldSetPanResponder isRTL props s x y
      then (Dragging, handlePanResponderGrant isRTL props s) else (Idle, s))"
| "dispatch isRTL props (Idle, s) (TouchMove dx) =
     (if handleMoveShouldSetPanResponder
      then (Dragging, handlePanResponderGrant isRTL props s) else (Idle, s))"
| "dispatch isRTL props (Idle, s) (Release dx) = (Idle, s)"
| "dispatch isRTL props (Idle, s) (Terminate dx) = (Idle, s)"
| "dispatch isRTL props (Idle, s) (TerminationRequest dx) = (Idle, s)"
| "dispatch isRTL props (Dragging, s) (TouchStart x y) = (Dragging, s)"
| "dispatch isRTL props (Dragging, s) (TouchMove dx) =
     (Dragging, handlePanResponderMove isRTL props s dx)"
| "dispatch isRTL props (Dragging, s) (Release dx) =
     (Idle, handlePanResponderEnd isRTL props s dx)"
| "dispatch isRTL props (Dragging, s) (Terminate dx) =
     (Idle, handlePanResponderEnd isRTL props s dx)"
| "dispatch isRTL props (Dragging, s) (TerminationRequest dx) =
     (if handlePanResponderRequestEnd
      then (Idle, handlePanResponderEnd isRTL props s dx) else (Dragging, s))"

text \<open>A sequence of layout events, each a region with its width and height, in order.\<close>

primrec measureAll :: "Slider \<Rightarrow> (SizeEnum \<times> real \<times> real) list \<Rightarrow> Slider" where
  "measureAll s [] = s"
| "measureAll s (m # ms) = measureAll (handleMeasure s (fst m) (fst (snd m)) (snd (snd m))) ms"

section \<open>Predicates of the specification and sample configurations\<close>

text \<open>A value lies in the configured range, by JavaScript's comparisons (NaN lies nowhere).\<close>

definition in_range :: "SliderProps \<Rightarrow> jsnum \<Rightarrow> bool" where
  "in_range props v = (jle (Fin (minimumValue props)) v \<and> jle v (Fin (maximumValue props)))"

text \<open>The length of the track: what \<open>_getThumbLeft\<close> multiplies by and \<open>_getValue\<close> divides by.\<close>

definition trackLength :: "Slider \<Rightarrow> real" where
  "trackLength s = width (state_containerSize s) - width (state_thumbSize s)"

text \<open>The default props of the component, every callback given.\<close>

definition defaultProps :: SliderProps where
  "defaultProps =
     \<lparr> propValue = 0, disabled = False, minimumValue = 0, maximumValue = 1, step = 0,
       thumbTouchSize = \<lparr>width = 40, height = 40\<rparr>,
       has_onValueChange = True, has_onSlidingStart = True, has_onSlidingComplete = True \<rparr>"

text \<open>
  A slider laid out as in the scenarios of the specification: container 300 by 40,
  track 300 by 4, thumb 20 by 20.
\<close>

definition laidOut :: "SliderProps \<Rightarrow> Slider" where
  "laidOut props =
     measureThumb (measureTrack (measureContainer (constructor props) 300 40) 300 4) 20 20"

text \<open>
  A value lies on the grid of the step: \<open>(value - minimumValue) % step == 0\<close>.
\<close>

definition on_step_grid :: "SliderProps \<Rightarrow> real \<Rightarrow> bool" where
  "on_step_grid props v = (js_rem (v - minimumValue props) (step props) = 0)"

text \<open>The machine's \<open>minimumValue + k * step\<close>, for an integer \<open>k\<close>.\<close>

definition machine_grid_point :: "SliderProps \<Rightarrow> int \<Rightarrow> jsnum" where
  "machine_grid_point props k =
     fadd (Fin (minimumValue props)) (fmul (Fin (of_int k)) (Fin (step props)))"


text \<open>A range from 0 to 10 in steps of 4, and a range that is the single point 5.\<close>

definition steppedProps :: SliderProps where
  "steppedProps = defaultProps\<lparr>maximumValue := 10, step := 4\<rparr>"




text \<open>The default props with the slider disabled.\<close>

definition disabledProps :: SliderProps where
  "disabledProps = defaultProps\<lparr>disabled := True\<rparr>"

text \<open>The default props with the initial value one half.\<close>

definition startedAtHalf :: SliderProps where
  "startedAtHalf = defaultProps\<lparr>propValue := 1 / 2\<rparr>"

text \<open>The three private sizes are defined: each region has been measured.\<close>

definition allStored :: "Slider \<Rightarrow> bool" where
  "allStored s = (getStore s containerSize \<noteq> None \<and> getStore s trackSize \<noteq> None \<and>
     getStore s thumbSize \<noteq> None)"

section \<open>Arithmetic of the clamp\<close>

lemma clamp_Fin: "Math_max (Fin a) (Math_min (Fin b) (Fin x)) = Fin (max a (min b x))"
  by (simp add: Math_max_def Math_min_def max_def min_def)

lemma clamp_PInf: "Math_max (Fin a) (Math_min (Fin b) PInf) = Fin (max a b)"
  by (simp add: Math_max_def Math_min_def max_def min_def)

lemma clamp_NInf: "Math_max (Fin a) (Math_min (Fin b) NInf) = Fin a"
  by (simp add: Math_max_def Math_min_def max_def min_def)

lemma clamp_NaN: "Math_max (Fin a) (Math_min (Fin b) NaN) = NaN"
  by (simp add: Math_max_def Math_min_def max_def min_def)

section \<open>The ratio and the value of a drag\<close>

lemma getValue_ratio_nonzero_length:
  assumes "previousLeft s = Fin pl" and "trackLength s \<noteq> 0"
  shows "getValue_ratio isRTL s dx =
     Fin (if isRTL then 1 - (pl + dx) / trackLength s else (pl + dx) / trackLength s)"
  using assms by (simp add: getValue_ratio_def trackLength_def Let_def jsub_def)


lemma getValue_Fin_ratio:
  assumes "getValue_ratio isRTL s dx = Fin r"
  shows "getValue isRTL props s dx =
    Fin (max (minimumValue props) (min (maximumValue props)
      (if step props \<noteq> 0
       then minimumValue props +
            of_int \<lfloor>r * (maximumValue props - minimumValue props) / step props + 1 / 2\<rfloor> * step props
       else r * (maximumValue props - minimumValue props) + minimumValue props)))"
  using assms by (simp add: getValue_def Let_def clamp_Fin)


text \<open>The sample layout, computed.\<close>

lemma laidOut_eq:
  "laidOut props = (constructor props)
     \<lparr> priv_containerSize := Some \<lparr>width = 300, height = 40\<rparr>,
       priv_trackSize := Some \<lparr>width = 300, height = 4\<rparr>,
       priv_thumbSize := Some \<lparr>width = 20, height = 20\<rparr>,
       state_containerSize := \<lparr>width = 300, height = 40\<rparr>,
       state_trackSize := \<lparr>width = 300, height = 4\<rparr>,
       state_thumbSize := \<lparr>width = 20, height = 20\<rparr>,
       state_allMeasured := True,
       setStateCalls := 1 \<rparr>"
  by (simp add: laidOut_def measureThumb_def measureTrack_def measureContainer_def
      handleMeasure_def publishSizes_def constructor_def)

lemma laidOut_trackLength: "trackLength (laidOut props) = 280"
  by (simp add: laidOut_eq trackLength_def)

lemma laidOut_previousLeft: "previousLeft (laidOut props) = Fin 0"
  by (simp add: laidOut_eq constructor_def)

lemma laidOut_stepped: "getValue False steppedProps (laidOut steppedProps) 300 = Fin 10"
  using getValue_Fin_ratio [of False "laidOut steppedProps" 300 "300 / 280" steppedProps]
    getValue_ratio_nonzero_length [of "laidOut steppedProps" 0 False 300]
  by (simp add: laidOut_trackLength laidOut_previousLeft steppedProps_def defaultProps_def)

section \<open>The grid of the step\<close>

lemma js_rem_multiple: "y \<noteq> 0 \<Longrightarrow> js_rem (of_int k * y) y = 0"
  by (simp add: js_rem_def)

section \<open>The offset of a value and the rounding error\<close>

lemma getRatio_Fin:
  assumes "maximumValue props \<noteq> minimumValue props"
  shows "getRatio props (Fin v) =
         Fin ((v - minimumValue props) / (maximumValue props - minimumValue props))"
  using assms by (simp add: getRatio_def jsub_def)


lemma getThumbLeft_Fin:
  assumes "maximumValue props \<noteq> minimumValue props"
  shows "getThumbLeft isRTL props s (Fin v) =
     Fin ((if isRTL then 1 - (v - minimumValue props) / (maximumValue props - minimumValue props)
           else (v - minimumValue props) / (maximumValue props - minimumValue props)) * trackLength s)"
  using assms by (simp add: getThumbLeft_def Let_def getRatio_Fin jsub_def trackLength_def)




section \<open>The touch rectangle\<close>

lemma containsPoint_Fin:
  "containsPoint \<lparr>rx = Fin a, ry = Fin b, rwidth = Fin w, rheight = Fin h\<rparr> x y \<longleftrightarrow>
     a \<le> x \<and> b \<le> y \<and> x \<le> a + w \<and> y \<le> b + h"
  by (simp add: containsPoint_def jge_def)

lemma laidOut_touchRect:
  "getThumbTouchRect False defaultProps (laidOut defaultProps) =
     \<lparr>rx = Fin 0, ry = Fin 0, rwidth = Fin 40, rheight = Fin 40\<rparr>"
  by (simp add: getThumbTouchRect_def getTouchOverflowSize_def getThumbLeft_def getRatio_def
      getCurrentValue_def jsub_def Let_def laidOut_eq constructor_def defaultProps_def)

section \<open>Measurements\<close>

lemma getStore_setStore:
  "getStore (setStore s n z) m = (if m = n then Some z else getStore s m)"
  by (cases n; cases m) simp_all

lemma setStore_frame:
  "state_allMeasured (setStore s n z) = state_allMeasured s"
  "currentValue (setStore s n z) = currentValue s"
  "fired (setStore s n z) = fired s"
  by (cases n; simp)+

lemma publishSizes_frame:
  "getStore (publishSizes s) m = getStore s m"
  "currentValue (publishSizes s) = currentValue s"
  "fired (publishSizes s) = fired s"
  by (cases m; cases "priv_containerSize s"; cases "priv_trackSize s"; cases "priv_thumbSize s";
      simp add: publishSizes_def)+

lemma publishSizes_allMeasured:
  "state_allMeasured (publishSizes s) \<longleftrightarrow> state_allMeasured s \<or> allStored s"
  by (cases "priv_containerSize s"; cases "priv_trackSize s"; cases "priv_thumbSize s";
      simp add: publishSizes_def allStored_def)

lemma handleMeasure_same:
  assumes "getStore s n = Some \<lparr>width = w, height = h\<rparr>"
  shows "handleMeasure s n w h = s"
  using assms by (simp add: handleMeasure_def)

lemma handleMeasure_cases:
  "handleMeasure s n w h = s \<and> getStore s n = Some \<lparr>width = w, height = h\<rparr> \<or>
   handleMeasure s n w h = publishSizes (setStore s n \<lparr>width = w, height = h\<rparr>)"
  by (cases "getStore s n") (auto simp add: handleMeasure_def)

lemma handleMeasure_getStore:
  "getStore (handleMeasure s n w h) m =
     (if m = n then Some \<lparr>width = w, height = h\<rparr> else getStore s m)"
  using handleMeasure_cases [of s n w h]
  by (auto simp add: publishSizes_frame getStore_setStore)

lemma handleMeasure_frame:
  "currentValue (handleMeasure s n w h) = currentValue s"
  "fired (handleMeasure s n w h) = fired s"
  using handleMeasure_cases [of s n w h]
  by (auto simp add: publishSizes_frame setStore_frame)

lemma handleMeasure_invariant:
  assumes "state_allMeasured s \<longleftrightarrow> allStored s"
  shows "state_allMeasured (handleMeasure s n w h) \<longleftrightarrow> allStored (handleMeasure s n w h)"
proof -
  from handleMeasure_cases [of s n w h]
  consider "handleMeasure s n w h = s"
    | "handleMeasure s n w h = publishSizes (setStore s n \<lparr>width = w, height = h\<rparr>)"
    by blast
  then show ?thesis
  proof cases
    case 1
    with assms show ?thesis by simp
  next
    case 2
    let ?s1 = "setStore s n \<lparr>width = w, height = h\<rparr>"
    have a: "allStored (publishSizes ?s1) = allStored ?s1"
      by (simp add: allStored_def publishSizes_frame del: getStore.simps)
    have b: "allStored s \<Longrightarrow> allStored ?s1"
      by (simp add: allStored_def getStore_setStore del: getStore.simps)
    from 2 a b assms show ?thesis
      by (auto simp add: publishSizes_allMeasured setStore_frame)
  qed
qed

lemma measureAll_invariant:
  assumes "state_allMeasured s \<longleftrightarrow> allStored s"
  shows "state_allMeasured (measureAll s ms) \<longleftrightarrow> allStored (measureAll s ms)"
  using assms
proof (induction ms arbitrary: s)
  case Nil
  then show ?case by simp
next
  case (Cons m ms)
  from Cons.prems have "state_allMeasured (handleMeasure s (fst m) (fst (snd m)) (snd (snd m)))
      \<longleftrightarrow> allStored (handleMeasure s (fst m) (fst (snd m)) (snd (snd m)))"
    by (rule handleMeasure_invariant)
  then show ?case using Cons.IH by simp
qed

lemma measureAll_getStore_None:
  "getStore (measureAll s ms) m = None \<longleftrightarrow> (m \<notin> fst ` set ms \<and> getStore s m = None)"
proof (induction ms arbitrary: s)
  case Nil
  then show ?case by simp
next
  case (Cons a ms)
  show ?case using Cons.IH [of "handleMeasure s (fst a) (fst (snd a)) (snd (snd a))"]
    by (auto simp add: handleMeasure_getStore)
qed

lemma measureAll_frame:
  "currentValue (measureAll s ms) = currentValue s"
  "fired (measureAll s ms) = fired s"
  by (induction ms arbitrary: s) (simp_all add: handleMeasure_frame)

section \<open>Rounding to binary64\<close>

lemma floor_log2_eq:
  fixes x :: real
  assumes "2 powi e \<le> \<bar>x\<bar>" and "\<bar>x\<bar> < 2 powi (e + 1)"
  shows "\<lfloor>log 2 \<bar>x\<bar>\<rfloor> = e"
proof -
  have pos: "0 < \<bar>x\<bar>" using assms(1) zero_less_power_int [of "2::real" e] by linarith
  have a: "(2::real) powr real_of_int e = 2 powi e"
    by (rule powr_real_of_int') simp_all
  have b: "(2::real) powr (real_of_int e + 1) = 2 powi (e + 1)"
    using powr_real_of_int' [of "2::real" "e + 1"] by simp
  from pos assms a b show ?thesis
    by (simp add: floor_log_eq_powr_iff)
qed

lemma rne_of_int: "rne (of_int m) = m"
  by (simp add: rne_def)

lemma fl64_eval:
  assumes "2 powi e \<le> \<bar>x\<bar>" and "\<bar>x\<bar> < 2 powi (e + 1)" and "- 1022 \<le> e"
    and "rne (x / 2 powi (e - 52)) = n"
    and "\<bar>of_int n * 2 powi (e - 52)\<bar> < (2::real) ^ 1024"
  shows "fl64 x = Fin (of_int n * 2 powi (e - 52))"
proof -
  have "(0::real) < 2 powi e" by simp
  with assms(1) have "0 < \<bar>x\<bar>" by linarith
  then have nz: "x \<noteq> 0" by auto
  have e: "max (- 1022) \<lfloor>log 2 \<bar>x\<bar>\<rfloor> = e"
    using floor_log2_eq [OF assms(1,2)] assms(3) by simp
  show ?thesis
    unfolding fl64_def Let_def e using nz assms(4,5) by simp
qed

lemma fl64_exact:
  assumes x: "x = of_int m * 2 powi (e - 52)"
    and m: "2 ^ 52 \<le> \<bar>m\<bar>" "\<bar>m\<bar> < 2 ^ 53"
    and e: "- 1022 \<le> e" "e \<le> 1023"
  shows "fl64 x = Fin x"
proof -
  have p: "(0::real) < 2 powi (e - 52)" by simp
  have ax: "\<bar>x\<bar> = of_int \<bar>m\<bar> * 2 powi (e - 52)"
    using x p by (simp add: abs_mult)
  have s1: "(2::real) powi e = 2 ^ 52 * 2 powi (e - 52)"
    using power_int_add [of "2::real" 52 "e - 52"] by simp
  have s2: "(2::real) powi (e + 1) = 2 ^ 53 * 2 powi (e - 52)"
    using power_int_add [of "2::real" 53 "e - 52"] by (simp add: add.commute)
  have lo: "2 powi e \<le> \<bar>x\<bar>"
  proof -
    have "(2::real) ^ 52 \<le> of_int \<bar>m\<bar>" using m(1) by (metis of_int_le_iff of_int_numeral of_int_power)
    then have "2 ^ 52 * 2 powi (e - 52) \<le> of_int \<bar>m\<bar> * (2::real) powi (e - 52)"
      by (rule mult_right_mono) (rule less_imp_le, rule p)
    then show ?thesis unfolding ax s1 .
  qed
  have hi: "\<bar>x\<bar> < 2 powi (e + 1)"
  proof -
    have "of_int \<bar>m\<bar> < (2::real) ^ 53" using m(2) by (metis of_int_less_iff of_int_numeral of_int_power)
    then have "of_int \<bar>m\<bar> * (2::real) powi (e - 52) < 2 ^ 53 * 2 powi (e - 52)"
      by (rule mult_strict_right_mono) (rule p)
    then show ?thesis unfolding ax s2 .
  qed
  have q: "x / 2 powi (e - 52) = of_int m" using x p by simp
  have r: "rne (x / 2 powi (e - 52)) = m" unfolding q by (rule rne_of_int)
  have "(2::real) powi (e + 1) \<le> 2 powi 1024"
    using e(2) by (intro power_int_increasing) simp_all
  with hi have big: "\<bar>of_int m * 2 powi (e - 52)\<bar> < (2::real) ^ 1024"
    using x by simp
  from fl64_eval [OF lo hi e(1) r big] x show ?thesis by simp
qed

lemma fl64_not_NaN: "fl64 x \<noteq> NaN"
  by (simp add: fl64_def Let_def signed_inf_def)

lemma fadd_Fin_not_NaN: "a \<noteq> NaN \<Longrightarrow> fadd a (Fin b) \<noteq> NaN"
  by (cases a) (simp_all add: fl64_not_NaN)

lemma Fin_fadd_not_NaN: "b \<noteq> NaN \<Longrightarrow> fadd (Fin a) b \<noteq> NaN"
  by (cases b) (simp_all add: fl64_not_NaN)

lemma fmul_Fin_not_NaN: "a \<noteq> NaN \<Longrightarrow> c \<noteq> 0 \<Longrightarrow> fmul a (Fin c) \<noteq> NaN"
  by (cases a) (simp_all add: fl64_not_NaN signed_inf_def)

lemma fdiv_Fin_not_NaN: "a \<noteq> NaN \<Longrightarrow> c \<noteq> 0 \<Longrightarrow> fdiv a (Fin c) \<noteq> NaN"
  by (cases a) (simp_all add: fl64_not_NaN signed_inf_def)

lemma Math_round_not_NaN: "a \<noteq> NaN \<Longrightarrow> Math_round a \<noteq> NaN"
  by (cases a) simp_all

lemma clamp_not_NaN: "x \<noteq> NaN \<Longrightarrow> Math_max (Fin a) (Math_min (Fin b) x) \<noteq> NaN"
  by (cases x) (simp_all add: clamp_Fin clamp_PInf clamp_NInf)

text \<open>The roundings that the sample computations need.\<close>

lemma fl64_1: "fl64 1 = Fin 1"
  by (rule fl64_exact [of _ "4503599627370496" "0"]) (simp_all add: power_int_minus)

lemma fl64_4: "fl64 4 = Fin 4"
  by (rule fl64_exact [of _ "4503599627370496" "2"]) (simp_all add: power_int_minus)

lemma fl64_5: "fl64 5 = Fin 5"
  by (rule fl64_exact [of _ "5629499534213120" "2"]) (simp_all add: power_int_minus)

lemma fl64_10: "fl64 10 = Fin 10"
  by (rule fl64_exact [of _ "5629499534213120" "3"]) (simp_all add: power_int_minus)

lemma fl64_12: "fl64 12 = Fin 12"
  by (rule fl64_exact [of _ "6755399441055744" "3"]) (simp_all add: power_int_minus)

lemma fl64_140: "fl64 140 = Fin 140"
  by (rule fl64_exact [of _ "4925812092436480" "7"]) (simp_all add: power_int_minus)

lemma fl64_280: "fl64 280 = Fin 280"
  by (rule fl64_exact [of _ "4925812092436480" "8"]) (simp_all add: power_int_minus)

lemma fl64_300: "fl64 300 = Fin 300"
  by (rule fl64_exact [of _ "5277655813324800" "8"]) (simp_all add: power_int_minus)

lemma fl64_half: "fl64 (1 / 2) = Fin (1 / 2)"
  by (rule fl64_exact [of _ "4503599627370496" "- 1"]) (simp_all add: power_int_minus)

lemma fl64_five_quarters: "fl64 (5 / 4) = Fin (5 / 4)"
  by (rule fl64_exact [of _ "5629499534213120" "0"]) (simp_all add: power_int_minus)






lemma fl64_300_over_280: "fl64 (15 / 14) = Fin (4825285315039817 / 4503599627370496)"
  using fl64_eval [of "0" "15 / 14" "4825285315039817"]
  by (simp add: rne_def power_int_minus)

lemma fl64_x1_times_10: "fl64 (24126426575199085 / 2251799813685248) = Fin (6031606643799771 / 562949953421312)"
  using fl64_eval [of "3" "24126426575199085 / 2251799813685248" "6031606643799771"]
  by (simp add: rne_def power_int_minus)

lemma fl64_x2_over_4: "fl64 (6031606643799771 / 2251799813685248) = Fin (6031606643799771 / 2251799813685248)"
  by (rule fl64_exact [of _ "6031606643799771" "1"]) (simp_all add: power_int_minus)

section \<open>The machine value mapper on the samples\<close>

lemma clamp_NaN_or_between:
  assumes "a \<le> b"
  shows "Math_max (Fin a) (Math_min (Fin b) x) = NaN \<or>
         (jle (Fin a) (Math_max (Fin a) (Math_min (Fin b) x)) \<and>
          jle (Math_max (Fin a) (Math_min (Fin b) x)) (Fin b))"
  using assms by (cases x) (simp_all add: clamp_Fin clamp_PInf clamp_NInf clamp_NaN max_def)

lemma clamp_choice:
  "Math_max (Fin a) (Math_min (Fin b) x) = NaN \<or>
   Math_max (Fin a) (Math_min (Fin b) x) = Fin a \<or>
   Math_max (Fin a) (Math_min (Fin b) x) = Fin b \<or>
   Math_max (Fin a) (Math_min (Fin b) x) = x"
  by (cases x) (simp_all add: clamp_Fin clamp_PInf clamp_NInf clamp_NaN max_def min_def)

lemma laidOut_trackLength64: "trackLength64 (laidOut props) = Fin 280"
  by (simp add: trackLength64_def laidOut_eq fsub_def fl64_280)

lemma fsub_Fin: "fsub (Fin a) (Fin b) = fl64 (a - b)"
  by (simp add: fsub_def)


lemma defaultProps_fields:
  "minimumValue defaultProps = 0" "maximumValue defaultProps = 1" "step defaultProps = 0"
  by (simp_all add: defaultProps_def)

lemma steppedProps_fields:
  "minimumValue steppedProps = 0" "maximumValue steppedProps = 10" "step steppedProps = 4"
  by (simp_all add: steppedProps_def defaultProps_def)

lemma getValue64_stepped_140:
  "getValue64 False steppedProps (laidOut steppedProps) 140 = Fin 4"
  by (simp add: getValue64_def getValue_ratio64_def laidOut_trackLength64 laidOut_previousLeft
      Let_def fsub_def steppedProps_fields clamp_Fin
      fl64_140 fl64_half fl64_10 fl64_5 fl64_five_quarters fl64_4)

lemma getValue64_stepped_300:
  "getValue64 False steppedProps (laidOut steppedProps) 300 = Fin 10"
  by (simp add: getValue64_def getValue_ratio64_def laidOut_trackLength64 laidOut_previousLeft
      Let_def fsub_def steppedProps_fields clamp_Fin
      fl64_300 fl64_300_over_280 fl64_10 fl64_x1_times_10 fl64_x2_over_4 fl64_12)

lemma getValue64_default_140:
  "getValue64 False defaultProps (laidOut defaultProps) 140 = Fin (1 / 2)"
  by (simp add: getValue64_def getValue_ratio64_def laidOut_trackLength64 laidOut_previousLeft
      Let_def fsub_def defaultProps_fields clamp_Fin fl64_140 fl64_half fl64_1)

lemma getValue64_unmeasured:
  "trackLength64 (constructor defaultProps) = Fin 0 \<and>
   fadd (previousLeft (constructor defaultProps)) (Fin 0) = Fin 0 \<and>
   getValue64 False defaultProps (constructor defaultProps) 0 = NaN"
  by (simp add: getValue64_def getValue_ratio64_def trackLength64_def constructor_def
      Let_def fsub_def defaultProps_fields fl64_def clamp_NaN)




section \<open>Claims\<close>

text \<open>
  C1, as stated: with \<open>minimumValue \<le> maximumValue\<close>, every drag gives a value within
  the range. It fails on a track of length zero: before any measurement the container and
  the thumb are both zero wide, a drag of \<open>dx = 0\<close> divides zero by zero, and the value
  is NaN, which lies in no range; so it is in exact and in machine arithmetic.
\<close>

theorem getValue_unmeasured_not_in_range:
  "minimumValue defaultProps \<le> maximumValue defaultProps \<and>
   getValue False defaultProps (constructor defaultProps) 0 = NaN \<and>
   \<not> in_range defaultProps (getValue False defaultProps (constructor defaultProps) 0) \<and>
   getValue64 False defaultProps (constructor defaultProps) 0 = NaN \<and>
   \<not> in_range defaultProps (getValue64 False defaultProps (constructor defaultProps) 0)"
  using getValue64_unmeasured
  by (simp add: getValue_def getValue_ratio_def Let_def constructor_def defaultProps_def
      in_range_def Math_max_def Math_min_def)

text \<open>
  C1, amended: with \<open>minimumValue \<le> maximumValue\<close>, the value \<open>_getValue\<close> computes
  in machine arithmetic is NaN or lies within the range, for every drag, anchor, step
  and direction. It lies within the range whenever the ratio of the drag and the span
  \<open>maximumValue - minimumValue\<close> are finite numbers. It is NaN when the track length and
  the thumb offset \<open>previousLeft + dx\<close> are both zero.
\<close>

theorem getValue64_in_range_or_NaN:
  assumes "minimumValue props \<le> maximumValue props"
  shows "(getValue64 isRTL props s dx = NaN \<or> in_range props (getValue64 isRTL props s dx)) \<and>
         (getValue_ratio64 isRTL s dx = Fin r \<and>
          fsub (Fin (maximumValue props)) (Fin (minimumValue props)) = Fin D \<longrightarrow>
            in_range props (getValue64 isRTL props s dx)) \<and>
         (trackLength64 s = Fin 0 \<and> fadd (previousLeft s) (Fin dx) = Fin 0 \<longrightarrow>
            getValue64 isRTL props s dx = NaN)"
proof (intro conjI impI)
  show either: "getValue64 isRTL props s dx = NaN \<or> in_range props (getValue64 isRTL props s dx)"
    unfolding getValue64_def Let_def in_range_def
    using clamp_NaN_or_between [OF assms] by (cases "step props = 0") simp_all
  show "in_range props (getValue64 isRTL props s dx)"
    if fin: "getValue_ratio64 isRTL s dx = Fin r \<and>
      fsub (Fin (maximumValue props)) (Fin (minimumValue props)) = Fin D"
  proof -
    have prod: "fmul (getValue_ratio64 isRTL s dx)
        (fsub (Fin (maximumValue props)) (Fin (minimumValue props))) \<noteq> NaN"
      using fin by (simp add: fl64_not_NaN)
    have "getValue64 isRTL props s dx \<noteq> NaN"
    proof (cases "step props = 0")
      case True
      from prod have "fadd (fmul (getValue_ratio64 isRTL s dx)
          (fsub (Fin (maximumValue props)) (Fin (minimumValue props))))
          (Fin (minimumValue props)) \<noteq> NaN"
        by (rule fadd_Fin_not_NaN)
      then show ?thesis using True by (simp add: getValue64_def Let_def clamp_not_NaN)
    next
      case False
      from prod False have "fdiv (fmul (getValue_ratio64 isRTL s dx)
          (fsub (Fin (maximumValue props)) (Fin (minimumValue props))))
          (Fin (step props)) \<noteq> NaN"
        by (rule fdiv_Fin_not_NaN)
      then have "Math_round (fdiv (fmul (getValue_ratio64 isRTL s dx)
          (fsub (Fin (maximumValue props)) (Fin (minimumValue props))))
          (Fin (step props))) \<noteq> NaN"
        by (rule Math_round_not_NaN)
      then have "fmul (Math_round (fdiv (fmul (getValue_ratio64 isRTL s dx)
          (fsub (Fin (maximumValue props)) (Fin (minimumValue props))))
          (Fin (step props)))) (Fin (step props)) \<noteq> NaN"
        using False by (rule fmul_Fin_not_NaN)
      then have "fadd (Fin (minimumValue props))
          (fmul (Math_round (fdiv (fmul (getValue_ratio64 isRTL s dx)
            (fsub (Fin (maximumValue props)) (Fin (minimumValue props))))
            (Fin (step props)))) (Fin (step props))) \<noteq> NaN"
        by (rule Fin_fadd_not_NaN)
      then show ?thesis using False by (simp add: getValue64_def Let_def clamp_not_NaN)
    qed
    with either show ?thesis by simp
  qed
  show "getValue64 isRTL props s dx = NaN"
    if z: "trackLength64 s = Fin 0 \<and> fadd (previousLeft s) (Fin dx) = Fin 0"
  proof -
    from z have "getValue_ratio64 isRTL s dx = NaN"
      by (simp add: getValue_ratio64_def Let_def fsub_def)
    then show ?thesis by (simp add: getValue64_def Let_def clamp_NaN)
  qed
qed

theorem getValue64_in_range_or_NaN_witness:
  "minimumValue defaultProps \<le> maximumValue defaultProps \<and>
   getValue_ratio64 False (laidOut defaultProps) 140 = Fin (1 / 2) \<and>
   fsub (Fin (maximumValue defaultProps)) (Fin (minimumValue defaultProps)) = Fin 1 \<and>
   getValue64 False defaultProps (laidOut defaultProps) 140 = Fin (1 / 2) \<and>
   in_range defaultProps (getValue64 False defaultProps (laidOut defaultProps) 140) \<and>
   trackLength64 (constructor defaultProps) = Fin 0 \<and>
   fadd (previousLeft (constructor defaultProps)) (Fin 0) = Fin 0 \<and>
   getValue64 False defaultProps (constructor defaultProps) 0 = NaN"
proof -
  have a: "minimumValue defaultProps \<le> maximumValue defaultProps"
    by (simp add: defaultProps_fields)
  have r: "getValue_ratio64 False (laidOut defaultProps) 140 = Fin (1 / 2)"
    by (simp add: getValue_ratio64_def laidOut_trackLength64 laidOut_previousLeft Let_def
        fl64_140 fl64_half)
  have d: "fsub (Fin (maximumValue defaultProps)) (Fin (minimumValue defaultProps)) = Fin 1"
    by (simp add: fsub_Fin defaultProps_fields fl64_1)
  have z: "trackLength64 (constructor defaultProps) = Fin 0"
    "fadd (previousLeft (constructor defaultProps)) (Fin 0) = Fin 0"
    using getValue64_unmeasured by simp_all
  from getValue64_in_range_or_NaN [OF a, of False "laidOut defaultProps" 140 "1 / 2" 1] r d
  have 1: "in_range defaultProps (getValue64 False defaultProps (laidOut defaultProps) 140)"
    by blast
  from getValue64_in_range_or_NaN [OF a, of False "constructor defaultProps" 0] z
  have 2: "getValue64 False defaultProps (constructor defaultProps) 0 = NaN" by blast
  from a r d z 1 2 getValue64_default_140 show ?thesis by simp
qed

text \<open>
  C2, as stated: with \<open>step = s > 0\<close> every value of a drag satisfies
  \<open>(value - minimumValue) % s == 0\<close>, also when the rounded value is clamped. It fails
  for a value clamped to \<open>maximumValue\<close> when the span of the range is not a multiple of
  the step: range 0 to 10, step 4, track 280, a drag of 300 rounds to 12 and is clamped
  to 10, and \<open>10 % 4\<close> is 2; so it is in exact and in machine arithmetic.
\<close>

theorem getValue_clamped_off_grid:
  "0 < step steppedProps \<and>
   getValue False steppedProps (laidOut steppedProps) 300 = Fin 10 \<and>
   js_rem (10 - minimumValue steppedProps) (step steppedProps) \<noteq> 0 \<and>
   getValue64 False steppedProps (laidOut steppedProps) 300 = Fin 10"
  by (simp add: laidOut_stepped getValue64_stepped_300)
    (simp add: steppedProps_def defaultProps_def js_rem_def)

text \<open>
  C2, amended: with \<open>step = s > 0\<close>, the value \<open>_getValue\<close> computes in machine
  arithmetic is NaN, or \<open>minimumValue\<close>, or \<open>maximumValue\<close>, or the machine's
  \<open>minimumValue + k * s\<close> for an integer \<open>k\<close>: the rounding of a point that
  satisfies \<open>(value - minimumValue) % s == 0\<close> exactly.
\<close>

theorem getValue64_on_machine_grid:
  assumes "0 < step props"
  shows "(getValue64 isRTL props s dx = NaN \<or>
          getValue64 isRTL props s dx = Fin (minimumValue props) \<or>
          getValue64 isRTL props s dx = Fin (maximumValue props) \<or>
          (\<exists>k. getValue64 isRTL props s dx = machine_grid_point props k)) \<and>
         (\<forall>k. machine_grid_point props k =
                fadd (Fin (minimumValue props)) (fmul (Fin (of_int k)) (Fin (step props))) \<and>
              on_step_grid props (minimumValue props + of_int k * step props))"
proof
  show "\<forall>k. machine_grid_point props k =
                fadd (Fin (minimumValue props)) (fmul (Fin (of_int k)) (Fin (step props))) \<and>
              on_step_grid props (minimumValue props + of_int k * step props)"
    using assms js_rem_multiple [of "step props"]
    by (simp add: machine_grid_point_def on_step_grid_def)
next
  let ?goal = "getValue64 isRTL props s dx = NaN \<or>
          getValue64 isRTL props s dx = Fin (minimumValue props) \<or>
          getValue64 isRTL props s dx = Fin (maximumValue props) \<or>
          (\<exists>k. getValue64 isRTL props s dx = machine_grid_point props k)"
  let ?mn = "Fin (minimumValue props)" and ?mx = "Fin (maximumValue props)"
    and ?st = "Fin (step props)"
  let ?count = "Math_round (fdiv (fmul (getValue_ratio64 isRTL s dx) (fsub ?mx ?mn)) ?st)"
  let ?x = "fadd ?mn (fmul ?count ?st)"
  from assms have gv: "getValue64 isRTL props s dx = Math_max ?mn (Math_min ?mx ?x)"
    by (simp add: getValue64_def Let_def)
  show ?goal
  proof (cases ?count)
    case (Fin c)
    then obtain k :: int where "c = of_int k"
      by (cases "fdiv (fmul (getValue_ratio64 isRTL s dx) (fsub ?mx ?mn)) ?st") auto
    with Fin have "?x = machine_grid_point props k"
      by (simp add: machine_grid_point_def)
    with gv clamp_choice [of "minimumValue props" "maximumValue props" ?x]
    show ?goal by metis
  next
    case PInf
    with assms have "?x = PInf" by (simp add: signed_inf_def)
    with gv show ?goal by (simp add: clamp_PInf max_def)
  next
    case NInf
    with assms have "?x = NInf" by (simp add: signed_inf_def)
    with gv show ?goal by (simp add: clamp_NInf)
  next
    case NaN
    then have "?x = NaN" by simp
    with gv show ?goal by (simp add: clamp_NaN)
  qed
qed

theorem getValue64_on_machine_grid_witness:
  "0 < step steppedProps \<and>
   getValue64 False steppedProps (laidOut steppedProps) 140 = Fin 4 \<and>
   machine_grid_point steppedProps 1 = Fin 4 \<and>
   (\<exists>k. getValue64 False steppedProps (laidOut steppedProps) 140 = machine_grid_point steppedProps k)"
proof -
  have a: "0 < step steppedProps" by (simp add: steppedProps_fields)
  have g: "machine_grid_point steppedProps 1 = Fin 4"
    by (simp add: machine_grid_point_def steppedProps_fields fl64_4)
  from getValue64_on_machine_grid [OF a, of False "laidOut steppedProps" 140]
  have "getValue64 False steppedProps (laidOut steppedProps) 140 = NaN \<or>
      getValue64 False steppedProps (laidOut steppedProps) 140 = Fin (minimumValue steppedProps) \<or>
      getValue64 False steppedProps (laidOut steppedProps) 140 = Fin (maximumValue steppedProps) \<or>
      (\<exists>k. getValue64 False steppedProps (laidOut steppedProps) 140 =
           machine_grid_point steppedProps k)"
    by (rule conjunct1)
  then have "\<exists>k. getValue64 False steppedProps (laidOut steppedProps) 140 =
      machine_grid_point steppedProps k"
    by (simp add: getValue64_stepped_140 steppedProps_fields)
  with a g getValue64_stepped_140 show ?thesis by simp
qed









text \<open>
  C6: the start handler returns exactly the containment test of the touch point in the
  enlarged thumb rectangle, a test that includes the four edges; the move handler returns
  false; an idle controller starts dragging exactly on a press inside that rectangle, and
  a press outside leaves the controller idle and the slider as it was, so that
  \<open>onSlidingStart\<close> is not called.
\<close>

theorem gesture_granted_only_by_start_on_thumb:
  "handleStartShouldSetPanResponder isRTL props s x y =
     containsPoint (getThumbTouchRect isRTL props s) x y \<and>
   (containsPoint \<lparr>rx = Fin a, ry = Fin b, rwidth = Fin w, rheight = Fin h\<rparr> x y \<longleftrightarrow>
     a \<le> x \<and> b \<le> y \<and> x \<le> a + w \<and> y \<le> b + h) \<and>
   \<not> handleMoveShouldSetPanResponder \<and>
   dispatch isRTL props (Idle, s) (TouchMove dx) = (Idle, s) \<and>
   (fst (dispatch isRTL props (Idle, s) ev) = Dragging \<longleftrightarrow>
     (\<exists>x y. ev = TouchStart x y \<and> containsPoint (getThumbTouchRect isRTL props s) x y)) \<and>
   (\<not> containsPoint (getThumbTouchRect isRTL props s) x y \<longrightarrow>
     dispatch isRTL props (Idle, s) (TouchStart x y) = (Idle, s) \<and>
     fired (snd (dispatch isRTL props (Idle, s) (TouchStart x y))) = fired s)"
proof -
  have 1: "handleStartShouldSetPanResponder isRTL props s x y =
     containsPoint (getThumbTouchRect isRTL props s) x y" for x y
    by (simp add: handleStartShouldSetPanResponder_def thumbHitTest_def)
  have 2: "\<not> handleMoveShouldSetPanResponder"
    by (simp add: handleMoveShouldSetPanResponder_def)
  have 3: "dispatch isRTL props (Idle, s) (TouchMove dx) = (Idle, s)"
    using 2 by simp
  have 4: "fst (dispatch isRTL props (Idle, s) ev) = Dragging \<longleftrightarrow>
     (\<exists>x y. ev = TouchStart x y \<and> containsPoint (getThumbTouchRect isRTL props s) x y)"
    using 1 2 by (cases ev) simp_all
  have 5: "dispatch isRTL props (Idle, s) (TouchStart x y) = (Idle, s) \<and>
     fired (snd (dispatch isRTL props (Idle, s) (TouchStart x y))) = fired s"
    if "\<not> containsPoint (getThumbTouchRect isRTL props s) x y"
    using that 1 by simp
  from 1 2 3 4 5 containsPoint_Fin show ?thesis by blast
qed

theorem gesture_granted_only_by_start_on_thumb_witness:
  "\<not> containsPoint (getThumbTouchRect False defaultProps (laidOut defaultProps)) 500 20 \<and>
   dispatch False defaultProps (Idle, laidOut defaultProps) (TouchStart 500 20) =
     (Idle, laidOut defaultProps) \<and>
   containsPoint (getThumbTouchRect False defaultProps (laidOut defaultProps)) 40 40 \<and>
   fst (dispatch False defaultProps (Idle, laidOut defaultProps) (TouchStart 40 40)) = Dragging"
proof -
  have a: "\<not> containsPoint (getThumbTouchRect False defaultProps (laidOut defaultProps)) 500 20"
    by (simp add: laidOut_touchRect containsPoint_Fin)
  have b: "containsPoint (getThumbTouchRect False defaultProps (laidOut defaultProps)) 40 40"
    by (simp add: laidOut_touchRect containsPoint_Fin)
  from gesture_granted_only_by_start_on_thumb
    [of False defaultProps "laidOut defaultProps" 500 20 _ _ _ _ _ "TouchStart 40 40"] a b
  show ?thesis by blast
qed

text \<open>
  C7: when \<open>disabled\<close> is true, the move handler and the end handler return the slider
  unchanged: no value is written, no callback is called and \<open>previousLeft\<close> keeps its
  value; the controller follows the gesture all the same.
\<close>

theorem disabled_move_end_ignored:
  assumes "disabled props"
  shows "handlePanResponderMove isRTL props s dx = s \<and>
         handlePanResponderEnd isRTL props s dx = s \<and>
         state_value (handlePanResponderMove isRTL props s dx) = state_value s \<and>
         state_value (handlePanResponderEnd isRTL props s dx) = state_value s \<and>
         fired (handlePanResponderMove isRTL props s dx) = fired s \<and>
         fired (handlePanResponderEnd isRTL props s dx) = fired s \<and>
         previousLeft (handlePanResponderMove isRTL props s dx) = previousLeft s \<and>
         previousLeft (handlePanResponderEnd isRTL props s dx) = previousLeft s \<and>
         dispatch isRTL props (Dragging, s) (TouchMove dx) = (Dragging, s) \<and>
         dispatch isRTL props (Dragging, s) (Release dx) = (Idle, s) \<and>
         dispatch isRTL props (Dragging, s) (Terminate dx) = (Idle, s)"
  using assms by (simp add: handlePanResponderMove_def handlePanResponderEnd_def)

theorem disabled_move_end_ignored_witness:
  "disabled disabledProps \<and>
   handlePanResponderMove False disabledProps (laidOut disabledProps) 140 = laidOut disabledProps \<and>
   handlePanResponderEnd False disabledProps (laidOut disabledProps) 140 = laidOut disabledProps"
proof -
  have a: "disabled disabledProps" by (simp add: disabledProps_def defaultProps_def)
  from disabled_move_end_ignored [OF a, of False "laidOut disabledProps" 140] a
  show ?thesis by simp
qed

text \<open>
  C8, as stated: \<open>allMeasured\<close> becomes true only once the three regions have been
  measured with dimensions that are not zero, and measurements of zero-size regions do not
  make it true. The code tests that the three size objects exist, not their dimensions:
  after the container, the track and the thumb have each been measured as 0 by 0,
  \<open>allMeasured\<close> is true and the published thumb size is 0 by 0.
\<close>

theorem allMeasured_zero_sizes:
  "state_allMeasured
     (measureThumb (measureTrack (measureContainer (constructor defaultProps) 0 0) 0 0) 0 0) \<and>
   state_thumbSize
     (measureThumb (measureTrack (measureContainer (constructor defaultProps) 0 0) 0 0) 0 0) =
     \<lparr>width = 0, height = 0\<rparr>"
  by (simp add: measureThumb_def measureTrack_def measureContainer_def
      handleMeasure_def publishSizes_def constructor_def)

text \<open>
  C8, amended: after any sequence of measurements of a new slider, \<open>allMeasured\<close> is
  true exactly when each of the three regions (container, track, thumb) has been measured
  at least once, whatever the dimensions recorded, zero included.
\<close>

theorem allMeasured_iff_each_region_measured:
  "state_allMeasured (measureAll (constructor props) ms) \<longleftrightarrow>
     containerSize \<in> fst ` set ms \<and> trackSize \<in> fst ` set ms \<and> thumbSize \<in> fst ` set ms"
proof -
  have init: "state_allMeasured (constructor props) \<longleftrightarrow> allStored (constructor props)"
    by (simp add: constructor_def allStored_def)
  have none: "getStore (constructor props) m = None" for m
    by (cases m) (simp_all add: constructor_def)
  have stored: "getStore (measureAll (constructor props) ms) m \<noteq> None \<longleftrightarrow> m \<in> fst ` set ms"
    for m
    by (simp only: measureAll_getStore_None none) simp
  have "state_allMeasured (measureAll (constructor props) ms) \<longleftrightarrow>
      allStored (measureAll (constructor props) ms)"
    using init by (rule measureAll_invariant)
  also have "\<dots> \<longleftrightarrow>
      containerSize \<in> fst ` set ms \<and> trackSize \<in> fst ` set ms \<and> thumbSize \<in> fst ` set ms"
    by (simp only: allStored_def stored)
  finally show ?thesis .
qed

theorem allMeasured_iff_each_region_measured_witness:
  "state_allMeasured (measureAll (constructor defaultProps)
      [(thumbSize, 0, 0), (containerSize, 300, 40), (trackSize, 0, 4)]) \<and>
   \<not> state_allMeasured (measureAll (constructor defaultProps)
      [(thumbSize, 20, 20), (containerSize, 300, 40), (thumbSize, 22, 20)])"
  using allMeasured_iff_each_region_measured
      [of defaultProps "[(thumbSize, 0, 0), (containerSize, 300, 40), (trackSize, 0, 4)]"]
    allMeasured_iff_each_region_measured
      [of defaultProps "[(thumbSize, 20, 20), (containerSize, 300, 40), (thumbSize, 22, 20)]"]
  by simp

text \<open>
  C9: for every region, a measurement whose width and height are those already stored for
  the region returns the slider unchanged: nothing is stored, \<open>setState\<close> is not called,
  \<open>allMeasured\<close> and the sizes stay as they are. Hence a measurement repeated at once
  changes nothing the second time; in particular the second of two calls
  \<open>measure(thumb, 20, 20)\<close> calls no \<open>setState\<close>.
\<close>

theorem handleMeasure_same_size_noop:
  "(getStore s n = Some \<lparr>width = w, height = h\<rparr> \<longrightarrow>
      handleMeasure s n w h = s \<and>
      setStateCalls (handleMeasure s n w h) = setStateCalls s \<and>
      state_allMeasured (handleMeasure s n w h) = state_allMeasured s) \<and>
   handleMeasure (handleMeasure s n w h) n w h = handleMeasure s n w h \<and>
   measureThumb (measureThumb s 20 20) 20 20 = measureThumb s 20 20 \<and>
   setStateCalls (measureThumb (measureThumb s 20 20) 20 20) =
     setStateCalls (measureThumb s 20 20)"
proof -
  have idem: "handleMeasure (handleMeasure s n w h) n w h = handleMeasure s n w h" for n w h
    by (rule handleMeasure_same) (simp add: handleMeasure_getStore del: getStore.simps)
  from idem [of thumbSize 20 20] idem [of n w h] handleMeasure_same [of s n w h]
  show ?thesis by (simp add: measureThumb_def)
qed

theorem handleMeasure_same_size_noop_witness:
  "getStore (laidOut defaultProps) thumbSize = Some \<lparr>width = 20, height = 20\<rparr> \<and>
   handleMeasure (laidOut defaultProps) thumbSize 20 20 = laidOut defaultProps \<and>
   setStateCalls (measureThumb (laidOut defaultProps) 20 20) = 1"
proof -
  have a: "getStore (laidOut defaultProps) thumbSize = Some \<lparr>width = 20, height = 20\<rparr>"
    by (simp add: laidOut_eq)
  have b: "setStateCalls (laidOut defaultProps) = 1"
    by (simp add: laidOut_eq)
  from handleMeasure_same_size_noop [of "laidOut defaultProps" thumbSize 20 20] a b
  show ?thesis by (simp add: measureThumb_def)
qed

text \<open>
  C10: the constructor puts the initial value prop into the animated value but sets
  \<open>currentValue\<close> to 0, and measurements do not notify the listener. So after any
  sequence of measurements of a new slider the current value read is 0, and a gesture
  granted then anchors \<open>previousLeft\<close> at the thumb offset of the value 0 and calls
  \<open>onSlidingStart\<close>, when given, with 0, whatever the initial value prop.
\<close>

theorem currentValue_zero_until_notified:
  "state_value (constructor props) = Fin (propValue props) \<and>
   getCurrentValue (constructor props) = Fin 0 \<and>
   getCurrentValue (measureAll (constructor props) ms) = Fin 0 \<and>
   previousLeft (handlePanResponderGrant isRTL props (measureAll (constructor props) ms)) =
     getThumbLeft isRTL props (measureAll (constructor props) ms) (Fin 0) \<and>
   fired (handlePanResponderGrant isRTL props (measureAll (constructor props) ms)) =
     (if has_onSlidingStart props then [(onSlidingStart, Fin 0)] else []) \<and>
   getCurrentValue (handlePanResponderGrant isRTL props (measureAll (constructor props) ms)) = Fin 0"
proof -
  let ?s = "measureAll (constructor props) ms"
  have cv: "currentValue ?s = Fin 0"
    by (simp add: measureAll_frame constructor_def)
  have fr: "fired ?s = []"
    by (simp add: measureAll_frame constructor_def)
  have sv: "state_value (constructor props) = Fin (propValue props)"
    and c0: "getCurrentValue (constructor props) = Fin 0"
    by (simp_all add: constructor_def getCurrentValue_def)
  from cv fr have g:
    "previousLeft (handlePanResponderGrant isRTL props ?s) = getThumbLeft isRTL props ?s (Fin 0)"
    "fired (handlePanResponderGrant isRTL props ?s) =
       (if has_onSlidingStart props then [(onSlidingStart, Fin 0)] else [])"
    "getCurrentValue (handlePanResponderGrant isRTL props ?s) = Fin 0"
    by (simp_all add: getCurrentValue_def handlePanResponderGrant_def fireChangeEvent_def)
  from sv c0 cv g show ?thesis by (simp add: getCurrentValue_def)
qed

theorem currentValue_zero_until_notified_witness:
  "state_value (constructor startedAtHalf) = Fin (1 / 2) \<and>
   getCurrentValue (laidOut startedAtHalf) = Fin 0 \<and>
   previousLeft (handlePanResponderGrant False startedAtHalf (laidOut startedAtHalf)) = Fin 0 \<and>
   fired (handlePanResponderGrant False startedAtHalf (laidOut startedAtHalf)) =
     [(onSlidingStart, Fin 0)]"
proof -
  have l: "laidOut startedAtHalf =
      measureAll (constructor startedAtHalf)
        [(containerSize, 300, 40), (trackSize, 300, 4), (thumbSize, 20, 20)]"
    by (simp add: laidOut_def measureThumb_def measureTrack_def measureContainer_def)
  have t: "getThumbLeft False startedAtHalf (laidOut startedAtHalf) (Fin 0) = Fin 0"
    using getThumbLeft_Fin [of startedAtHalf False "laidOut startedAtHalf" 0]
    by (simp add: startedAtHalf_def defaultProps_def)
  have p: "propValue startedAtHalf = 1 / 2" "has_onSlidingStart startedAtHalf"
    by (simp_all add: startedAtHalf_def defaultProps_def)
  from currentValue_zero_until_notified
    [of startedAtHalf "[(containerSize, 300, 40), (trackSize, 300, 4), (thumbSize, 20, 20)]" False]
    l t p
  show ?thesis by simp
qed

end
